theory Spec2Isabelle
  imports Main "HOL-Library.Monad_Syntax"
begin

section \<open>Voice bot backend: agents, LLM configurations and the chat gateway\<close>

text \<open>
  A shallow embedding of \<^verbatim>\<open>backend/server.py\<close>. The three MongoDB collections are
  lists of documents in natural (insertion) order. Everything the handlers take from outside
  the process is explicit: \<^verbatim>\<open>uuid.uuid4()\<close> and \<^verbatim>\<open>datetime.now(timezone.utc)\<close> read
  the next value of a supply held in an environment, and the external LLM provider is an
  oracle of the environment that either raises or returns the reply text. A handler takes the
  state of the world and returns its result together with the new state; an exception is the
  left injection of the result, and the writes made before it stay in the state.
\<close>

subsection \<open>Timestamps: \<^verbatim>\<open>datetime\<close>, \<^verbatim>\<open>isoformat\<close>, \<^verbatim>\<open>fromisoformat\<close>\<close>

text \<open>
  A Python \<^verbatim>\<open>datetime\<close> with its fields; the UTC offset of an aware value is kept in whole
  minutes (\<open>None\<close> for a naive value). The constructor of the Python class checks the ranges
  that \<open>valid_datetime\<close> states. \<open>isoformat\<close> follows \<^verbatim>\<open>datetime.isoformat()\<close>:
  \<^verbatim>\<open>%04d-%02d-%02dT%02d:%02d:%02d\<close>, the fraction \<^verbatim>\<open>.%06d\<close> only when the microsecond is
  not zero, then the offset \<^verbatim>\<open>+HH:MM\<close>. \<open>pad k n\<close> is \<^verbatim>\<open>%0kd\<close> on a value below \<open>10 ^ k\<close>.
  \<open>fromisoformat\<close> reads the strings that \<open>isoformat\<close> writes (any character may stand
  for the separator) and raises, here \<open>None\<close>, on a malformed string or on fields out of range.
\<close>

record datetime =
  year :: nat
  month :: nat
  day :: nat
  hour :: nat
  minute :: nat
  second :: nat
  microsecond :: nat
  utcoffset :: "int option"

definition is_leap :: "nat \<Rightarrow> bool" where
  "is_leap y = (y mod 4 = 0 \<and> (y mod 100 \<noteq> 0 \<or> y mod 400 = 0))"

definition days_in_month :: "nat \<Rightarrow> nat \<Rightarrow> nat" where
  "days_in_month y m =
     (if m = 2 then (if is_leap y then 29 else 28)
      else if m = 4 \<or> m = 6 \<or> m = 9 \<or> m = 11 then 30 else 31)"

definition valid_datetime :: "datetime \<Rightarrow> bool" where
  "valid_datetime d =
     (1 \<le> year d \<and> year d \<le> 9999 \<and> 1 \<le> month d \<and> month d \<le> 12 \<and>
      1 \<le> day d \<and> day d \<le> days_in_month (year d) (month d) \<and>
      hour d < 24 \<and> minute d < 60 \<and> second d < 60 \<and> microsecond d < 1000000 \<and>
      (case utcoffset d of None \<Rightarrow> True | Some off \<Rightarrow> - 1440 < off \<and> off < 1440))"

definition digit :: "nat \<Rightarrow> char" where
  "digit n = ''0123456789'' ! (n mod 10)"

definition digit_val :: "char \<Rightarrow> nat option" where
  "digit_val c = (let k = (of_char c :: nat) in if 48 \<le> k \<and> k \<le> 57 then Some (k - 48) else None)"

fun pad :: "nat \<Rightarrow> nat \<Rightarrow> string" where
  "pad 0 n = []"
| "pad (Suc k) n = digit (n div 10 ^ k) # pad k n"


definition format_offset :: "int option \<Rightarrow> string" where
  "format_offset off =
     (case off of None \<Rightarrow> []
      | Some m \<Rightarrow> (if m < 0 then ''-'' else ''+'') @
                  pad 2 (nat \<bar>m\<bar> div 60) @ '':'' @ pad 2 (nat \<bar>m\<bar> mod 60))"

definition format_time :: "nat \<Rightarrow> nat \<Rightarrow> nat \<Rightarrow> nat \<Rightarrow> string" where
  "format_time hh mm ss us =
     pad 2 hh @ '':'' @ pad 2 mm @ '':'' @ pad 2 ss @
     (if us \<noteq> 0 then ''.'' @ pad 6 us else [])"

definition isoformat :: "datetime \<Rightarrow> string" where
  "isoformat d =
     pad 4 (year d) @ ''-'' @ pad 2 (month d) @ ''-'' @ pad 2 (day d) @ ''T'' @
     format_time (hour d) (minute d) (second d) (microsecond d) @
     format_offset (utcoffset d)"

fun take_num :: "nat \<Rightarrow> string \<Rightarrow> (nat \<times> string) option" where
  "take_num 0 cs = Some (0, cs)"
| "take_num (Suc k) [] = None"
| "take_num (Suc k) (c # cs) =
     (case digit_val c of None \<Rightarrow> None
      | Some v \<Rightarrow> (case take_num k cs of None \<Rightarrow> None
                   | Some (n, r) \<Rightarrow> Some (v * 10 ^ k + n, r)))"

definition expect :: "char \<Rightarrow> string \<Rightarrow> string option" where
  "expect c s = (case s of [] \<Rightarrow> None | x # r \<Rightarrow> if x = c then Some r else None)"

definition skip_sep :: "string \<Rightarrow> string option" where
  "skip_sep s = (case s of [] \<Rightarrow> None | x # r \<Rightarrow> Some r)"

definition parse_date :: "string \<Rightarrow> ((nat \<times> nat \<times> nat) \<times> string) option" where
  "parse_date s = do {
     (y, r) \<leftarrow> take_num 4 s;
     r \<leftarrow> expect CHR ''-'' r;
     (mo, r) \<leftarrow> take_num 2 r;
     r \<leftarrow> expect CHR ''-'' r;
     (dd, r) \<leftarrow> take_num 2 r;
     Some ((y, mo, dd), r) }"

definition parse_fraction :: "string \<Rightarrow> (nat \<times> string) option" where
  "parse_fraction s =
     (case s of [] \<Rightarrow> Some (0, [])
      | x # r \<Rightarrow> if x = CHR ''.'' then take_num 6 r else Some (0, s))"

definition parse_time :: "string \<Rightarrow> ((nat \<times> nat \<times> nat \<times> nat) \<times> string) option" where
  "parse_time s = do {
     (hh, r) \<leftarrow> take_num 2 s;
     r \<leftarrow> expect CHR '':'' r;
     (mi, r) \<leftarrow> take_num 2 r;
     r \<leftarrow> expect CHR '':'' r;
     (ss, r) \<leftarrow> take_num 2 r;
     (us, r) \<leftarrow> parse_fraction r;
     Some ((hh, mi, ss, us), r) }"

definition parse_hh_mm :: "string \<Rightarrow> nat option" where
  "parse_hh_mm s = do {
     (hh, r) \<leftarrow> take_num 2 s;
     r \<leftarrow> expect CHR '':'' r;
     (mm, r) \<leftarrow> take_num 2 r;
     if r = [] then Some (hh * 60 + mm) else None }"

definition parse_offset :: "string \<Rightarrow> int option option" where
  "parse_offset s =
     (case s of [] \<Rightarrow> Some None
      | sg # r \<Rightarrow>
          if sg = CHR ''+'' then map_option (\<lambda>n. Some (int n)) (parse_hh_mm r)
          else if sg = CHR ''-'' then map_option (\<lambda>n. Some (- int n)) (parse_hh_mm r)
          else None)"

definition fromisoformat :: "string \<Rightarrow> datetime option" where
  "fromisoformat s = do {
     ((y, mo, dd), r) \<leftarrow> parse_date s;
     r \<leftarrow> skip_sep r;
     ((hh, mi, ss, us), r) \<leftarrow> parse_time r;
     tz \<leftarrow> parse_offset r;
     let dt = \<lparr>year = y, month = mo, day = dd, hour = hh, minute = mi, second = ss,
                microsecond = us, utcoffset = tz\<rparr>;
     if valid_datetime dt then Some dt else None }"


subsection \<open>Errors\<close>

text \<open>
  \<open>HTTPException\<close> is the exception the handlers raise themselves (status code and detail).
  Any other exception leaves the handler uncaught and the framework answers with a server
  error (status 500): \<open>Unhandled\<close>.
\<close>

datatype exn = ProviderError string | ValueError string | TypeError string

datatype error = HTTPException nat string | Unhandled exn

subsection \<open>Models\<close>

text \<open>
  The pydantic models. A stored document has the keys of its model, with the timestamp
  replaced by its ISO string before the insert, so the record is polymorphic in the type of
  the timestamp: \<^verbatim>\<open>datetime\<close> in a model object, \<open>stored_time\<close> in a document (a string,
  or a date where the store holds one: the readers test \<^verbatim>\<open>isinstance(.., str)\<close>).
  Field names carry a prefix of their model. \<open>AgentCreate\<close> is the validated body, its
  \<^verbatim>\<open>language\<close> already defaulted by pydantic.
\<close>

datatype stored_time = Str string | Date datetime

record 't Agent =
  a_id :: string
  a_name :: string
  a_description :: string
  a_system_prompt :: string
  a_language :: string
  a_is_active :: bool
  a_created_at :: 't

record AgentCreate =
  ac_name :: string
  ac_description :: string
  ac_system_prompt :: string
  ac_language :: string

record AgentUpdate =
  au_name :: "string option"
  au_description :: "string option"
  au_system_prompt :: "string option"
  au_language :: "string option"
  au_is_active :: "bool option"

record 't LLMConfig =
  c_id :: string
  c_provider :: string
  c_api_key :: string
  c_model_name :: string
  c_created_at :: 't

record LLMConfigCreate =
  cc_provider :: string
  cc_api_key :: string
  cc_model_name :: string

record 't ConversationMessage =
  m_id :: string
  m_session_id :: string
  m_agent_id :: string
  m_role :: string
  m_content :: string
  m_timestamp :: 't

record ChatRequest =
  rq_agent_id :: string
  rq_message :: string
  rq_session_id :: "string option"

record ChatResponse =
  rs_response :: string
  rs_session_id :: string

subsection \<open>The environment and the state\<close>

text \<open>
  One call of the LLM client: \<^verbatim>\<open>LlmChat(api_key, session_id, system_message)\<close>,
  \<^verbatim>\<open>.with_model(provider, model)\<close>, \<^verbatim>\<open>.send_message(UserMessage(text))\<close>.
\<close>

record llm_call =
  lc_api_key :: "string option"
  lc_session_id :: string
  lc_system_message :: string
  lc_provider :: string
  lc_model :: string
  lc_text :: string

record env =
  env_api_key :: "string option"
  uuid4_src :: "nat \<Rightarrow> string"
  clock :: "nat \<Rightarrow> datetime"
  provider :: "nat \<Rightarrow> llm_call \<Rightarrow> exn + string"

record world =
  agents :: "stored_time Agent list"
  llm_configs :: "stored_time LLMConfig list"
  conversations :: "stored_time ConversationMessage list"
  uuid_calls :: nat
  now_calls :: nat
  llm_calls :: "llm_call list"

definition uuid4 :: "env \<Rightarrow> world \<Rightarrow> string \<times> world" where
  "uuid4 e w = (uuid4_src e (uuid_calls w), w\<lparr>uuid_calls := Suc (uuid_calls w)\<rparr>)"

definition now_utc :: "env \<Rightarrow> world \<Rightarrow> datetime \<times> world" where
  "now_utc e w = ((clock e (now_calls w))\<lparr>utcoffset := Some 0\<rparr>,
                  w\<lparr>now_calls := Suc (now_calls w)\<rparr>)"

definition send_message :: "env \<Rightarrow> llm_call \<Rightarrow> world \<Rightarrow> (exn + string) \<times> world" where
  "send_message e c w = (provider e (length (llm_calls w)) c, w\<lparr>llm_calls := llm_calls w @ [c]\<rparr>)"

subsection \<open>Collection operations\<close>

definition find_one :: "('a \<Rightarrow> bool) \<Rightarrow> 'a list \<Rightarrow> 'a option" where
  "find_one q docs = find q docs"

fun update_one :: "('a \<Rightarrow> bool) \<Rightarrow> ('a \<Rightarrow> 'a) \<Rightarrow> 'a list \<Rightarrow> 'a list" where
  "update_one q f [] = []"
| "update_one q f (d # ds) = (if q d then f d # ds else d # update_one q f ds)"

text \<open>\<open>delete_one\<close> returns the collection and the \<^verbatim>\<open>deleted_count\<close>.\<close>

fun delete_one :: "('a \<Rightarrow> bool) \<Rightarrow> 'a list \<Rightarrow> 'a list \<times> nat" where
  "delete_one q [] = ([], 0)"
| "delete_one q (d # ds) =
     (if q d then (ds, 1) else (case delete_one q ds of (ds', n) \<Rightarrow> (d # ds', n)))"

definition to_list :: "nat \<Rightarrow> 'a list \<Rightarrow> 'a list" where
  "to_list n docs = take n docs"

subsection \<open>Model construction and the timestamp of a document\<close>

definition agent_with_created_at :: "'s \<Rightarrow> 't Agent \<Rightarrow> 's Agent" where
  "agent_with_created_at v a =
     \<lparr>a_id = a_id a, a_name = a_name a, a_description = a_description a,
      a_system_prompt = a_system_prompt a, a_language = a_language a,
      a_is_active = a_is_active a, a_created_at = v\<rparr>"

definition config_with_created_at :: "'s \<Rightarrow> 't LLMConfig \<Rightarrow> 's LLMConfig" where
  "config_with_created_at v c =
     \<lparr>c_id = c_id c, c_provider = c_provider c, c_api_key = c_api_key c,
      c_model_name = c_model_name c, c_created_at = v\<rparr>"

definition message_with_timestamp :: "'s \<Rightarrow> 't ConversationMessage \<Rightarrow> 's ConversationMessage" where
  "message_with_timestamp v m =
     \<lparr>m_id = m_id m, m_session_id = m_session_id m, m_agent_id = m_agent_id m,
      m_role = m_role m, m_content = m_content m, m_timestamp = v\<rparr>"

text \<open>
  \<^verbatim>\<open>Agent(name=.., description=.., system_prompt=.., language=..)\<close>: the default
  factories draw the identifier, then the creation time; \<^verbatim>\<open>is_active\<close> defaults to true.
\<close>

definition new_Agent :: "env \<Rightarrow> string \<Rightarrow> string \<Rightarrow> string \<Rightarrow> string \<Rightarrow> world
                         \<Rightarrow> datetime Agent \<times> world" where
  "new_Agent e nm ds sp lang w =
     (let (i, w1) = uuid4 e w;
          (t, w2) = now_utc e w1
      in (\<lparr>a_id = i, a_name = nm, a_description = ds, a_system_prompt = sp,
           a_language = lang, a_is_active = True, a_created_at = t\<rparr>, w2))"

definition new_LLMConfig :: "env \<Rightarrow> string \<Rightarrow> string \<Rightarrow> string \<Rightarrow> world
                             \<Rightarrow> datetime LLMConfig \<times> world" where
  "new_LLMConfig e pr key mn w =
     (let (i, w1) = uuid4 e w;
          (t, w2) = now_utc e w1
      in (\<lparr>c_id = i, c_provider = pr, c_api_key = key, c_model_name = mn,
           c_created_at = t\<rparr>, w2))"

definition new_ConversationMessage :: "env \<Rightarrow> string \<Rightarrow> string \<Rightarrow> string \<Rightarrow> string \<Rightarrow> world
                                       \<Rightarrow> datetime ConversationMessage \<times> world" where
  "new_ConversationMessage e sid aid role content w =
     (let (i, w1) = uuid4 e w;
          (t, w2) = now_utc e w1
      in (\<lparr>m_id = i, m_session_id = sid, m_agent_id = aid, m_role = role,
           m_content = content, m_timestamp = t\<rparr>, w2))"

text \<open>
  \<^verbatim>\<open>if isinstance(doc['created_at'], str): doc['created_at'] = datetime.fromisoformat(..)\<close>
\<close>

definition rehydrate_time :: "stored_time \<Rightarrow> exn + datetime" where
  "rehydrate_time v =
     (case v of
        Str s \<Rightarrow> (case fromisoformat s of None \<Rightarrow> Inl (ValueError s) | Some d \<Rightarrow> Inr d)
      | Date d \<Rightarrow> Inr d)"

definition rehydrate_agent :: "stored_time Agent \<Rightarrow> exn + datetime Agent" where
  "rehydrate_agent doc =
     (case rehydrate_time (a_created_at doc) of
        Inl x \<Rightarrow> Inl x
      | Inr d \<Rightarrow> Inr (agent_with_created_at d doc))"

definition rehydrate_config :: "stored_time LLMConfig \<Rightarrow> exn + datetime LLMConfig" where
  "rehydrate_config doc =
     (case rehydrate_time (c_created_at doc) of
        Inl x \<Rightarrow> Inl x
      | Inr d \<Rightarrow> Inr (config_with_created_at d doc))"

text \<open>The \<^verbatim>\<open>for\<close> loop over the documents read: the first failure leaves the loop.\<close>

fun for_each :: "('a \<Rightarrow> exn + 'b) \<Rightarrow> 'a list \<Rightarrow> exn + 'b list" where
  "for_each f [] = Inr []"
| "for_each f (d # ds) =
     (case f d of
        Inl x \<Rightarrow> Inl x
      | Inr a \<Rightarrow> (case for_each f ds of Inl x \<Rightarrow> Inl x | Inr as \<Rightarrow> Inr (a # as)))"

subsection \<open>Agent management endpoints\<close>

definition create_agent :: "env \<Rightarrow> AgentCreate \<Rightarrow> world \<Rightarrow> (error + datetime Agent) \<times> world" where
  "create_agent e agent_data w =
     (let (agent, w1) = new_Agent e (ac_name agent_data) (ac_description agent_data)
                          (ac_system_prompt agent_data) (ac_language agent_data) w;
          doc = agent_with_created_at (Str (isoformat (a_created_at agent))) agent
      in (Inr agent, w1\<lparr>agents := agents w1 @ [doc]\<rparr>))"

definition get_agents :: "world \<Rightarrow> (error + datetime Agent list) \<times> world" where
  "get_agents w =
     (case for_each rehydrate_agent (to_list 1000 (agents w)) of
        Inl x \<Rightarrow> (Inl (Unhandled x), w)
      | Inr as \<Rightarrow> (Inr as, w))"

definition get_agent :: "string \<Rightarrow> world \<Rightarrow> (error + datetime Agent) \<times> world" where
  "get_agent agent_id w =
     (case find_one (\<lambda>d. a_id d = agent_id) (agents w) of
        None \<Rightarrow> (Inl (HTTPException 404 ''Agent not found''), w)
      | Some agent \<Rightarrow>
          (case rehydrate_agent agent of
             Inl x \<Rightarrow> (Inl (Unhandled x), w)
           | Inr a \<Rightarrow> (Inr a, w)))"

text \<open>
  \<^verbatim>\<open>update_data = {k: v for k, v in agent_update.model_dump().items() if v is not None}\<close>:
  \<open>has_update_data\<close> is the truth value of that dictionary and \<open>set_fields\<close> is
  \<^verbatim>\<open>{"$set": update_data}\<close> applied to a document.
\<close>

definition has_update_data :: "AgentUpdate \<Rightarrow> bool" where
  "has_update_data u =
     (au_name u \<noteq> None \<or> au_description u \<noteq> None \<or> au_system_prompt u \<noteq> None \<or>
      au_language u \<noteq> None \<or> au_is_active u \<noteq> None)"

definition set_fields :: "AgentUpdate \<Rightarrow> 't Agent \<Rightarrow> 't Agent" where
  "set_fields u d =
     d\<lparr>a_name := (case au_name u of None \<Rightarrow> a_name d | Some v \<Rightarrow> v),
       a_description := (case au_description u of None \<Rightarrow> a_description d | Some v \<Rightarrow> v),
       a_system_prompt := (case au_system_prompt u of None \<Rightarrow> a_system_prompt d | Some v \<Rightarrow> v),
       a_language := (case au_language u of None \<Rightarrow> a_language d | Some v \<Rightarrow> v),
       a_is_active := (case au_is_active u of None \<Rightarrow> a_is_active d | Some v \<Rightarrow> v)\<rparr>"

definition update_agent :: "string \<Rightarrow> AgentUpdate \<Rightarrow> world \<Rightarrow> (error + datetime Agent) \<times> world" where
  "update_agent agent_id agent_update w =
     (case find_one (\<lambda>d. a_id d = agent_id) (agents w) of
        None \<Rightarrow> (Inl (HTTPException 404 ''Agent not found''), w)
      | Some existing_agent \<Rightarrow>
          (let w1 = (if has_update_data agent_update
                     then w\<lparr>agents := update_one (\<lambda>d. a_id d = agent_id)
                                         (set_fields agent_update) (agents w)\<rparr>
                     else w)
           in case find_one (\<lambda>d. a_id d = agent_id) (agents w1) of
                None \<Rightarrow> (Inl (Unhandled (TypeError ''NoneType is not subscriptable'')), w1)
              | Some updated_agent \<Rightarrow>
                  (case rehydrate_agent updated_agent of
                     Inl x \<Rightarrow> (Inl (Unhandled x), w1)
                   | Inr a \<Rightarrow> (Inr a, w1))))"

definition delete_agent :: "string \<Rightarrow> world \<Rightarrow> (error + string) \<times> world" where
  "delete_agent agent_id w =
     (case delete_one (\<lambda>d. a_id d = agent_id) (agents w) of
        (ds, deleted_count) \<Rightarrow>
          if deleted_count = 0 then (Inl (HTTPException 404 ''Agent not found''), w\<lparr>agents := ds\<rparr>)
          else (Inr ''Agent deleted successfully'', w\<lparr>agents := ds\<rparr>))"

subsection \<open>LLM configuration endpoints\<close>

definition create_llm_config :: "env \<Rightarrow> LLMConfigCreate \<Rightarrow> world
                                 \<Rightarrow> (error + datetime LLMConfig) \<times> world" where
  "create_llm_config e config_data w =
     (let (config, w1) = new_LLMConfig e (cc_provider config_data) (cc_api_key config_data)
                           (cc_model_name config_data) w;
          doc = config_with_created_at (Str (isoformat (c_created_at config))) config
      in (Inr config, w1\<lparr>llm_configs := llm_configs w1 @ [doc]\<rparr>))"

definition get_llm_configs :: "world \<Rightarrow> (error + datetime LLMConfig list) \<times> world" where
  "get_llm_configs w =
     (case for_each rehydrate_config (to_list 1000 (llm_configs w)) of
        Inl x \<Rightarrow> (Inl (Unhandled x), w)
      | Inr cs \<Rightarrow> (Inr cs, w))"

definition delete_llm_config :: "string \<Rightarrow> world \<Rightarrow> (error + string) \<times> world" where
  "delete_llm_config config_id w =
     (case delete_one (\<lambda>d. c_id d = config_id) (llm_configs w) of
        (ds, deleted_count) \<Rightarrow>
          if deleted_count = 0
          then (Inl (HTTPException 404 ''Configuration not found''), w\<lparr>llm_configs := ds\<rparr>)
          else (Inr ''Configuration deleted successfully'', w\<lparr>llm_configs := ds\<rparr>))"

subsection \<open>Chat endpoint\<close>

text \<open>
  \<^verbatim>\<open>session_id = request.session_id or str(uuid.uuid4())\<close>: Python's \<^verbatim>\<open>or\<close> takes the
  right operand when the left one is falsy, which \<^verbatim>\<open>None\<close> and the empty string both are;
  \<^verbatim>\<open>uuid4()\<close> is called only then.
\<close>

definition resolve_session_id :: "env \<Rightarrow> string option \<Rightarrow> world \<Rightarrow> string \<times> world" where
  "resolve_session_id e sid w =
     (case sid of
        None \<Rightarrow> uuid4 e w
      | Some s \<Rightarrow> if s = [] then uuid4 e w else (s, w))"

definition gemini_chat :: "env \<Rightarrow> string \<Rightarrow> stored_time Agent \<Rightarrow> string \<Rightarrow> llm_call" where
  "gemini_chat e session_id agent text =
     \<lparr>lc_api_key = env_api_key e, lc_session_id = session_id,
      lc_system_message = a_system_prompt agent,
      lc_provider = ''gemini'', lc_model = ''gemini-2.0-flash'', lc_text = text\<rparr>"

definition chat_with_agent :: "env \<Rightarrow> ChatRequest \<Rightarrow> world \<Rightarrow> (error + ChatResponse) \<times> world" where
  "chat_with_agent e request w =
     (case find_one (\<lambda>d. a_id d = rq_agent_id request) (agents w) of
        None \<Rightarrow> (Inl (HTTPException 404 ''Agent not found''), w)
      | Some agent \<Rightarrow>
          (let (session_id, w1) = resolve_session_id e (rq_session_id request) w;
               (res, w2) = send_message e (gemini_chat e session_id agent (rq_message request)) w1
           in case res of
                Inl x \<Rightarrow> (Inl (Unhandled x), w2)
              | Inr response \<Rightarrow>
                  (let (user_msg, w3) = new_ConversationMessage e session_id
                                          (rq_agent_id request) ''user'' (rq_message request) w2;
                       (assistant_msg, w4) = new_ConversationMessage e session_id
                                          (rq_agent_id request) ''assistant'' response w3;
                       user_doc = message_with_timestamp
                                    (Str (isoformat (m_timestamp user_msg))) user_msg;
                       assistant_doc = message_with_timestamp
                                    (Str (isoformat (m_timestamp assistant_msg))) assistant_msg
                   in (Inr \<lparr>rs_response = response, rs_session_id = session_id\<rparr>,
                       w4\<lparr>conversations := conversations w4 @ [user_doc, assistant_doc]\<rparr>))))"

subsection \<open>Startup\<close>

definition default_system_prompt :: string where
  "default_system_prompt =
     ''You are an order-taking voice bot that speaks in clear Hindi. Your job is to take orders from customers.\<newline>'' @
     ''\<newline>'' @
     ''Instructions:\<newline>'' @
     ''1. Always speak in clear and simple Hindi\<newline>'' @
     ''2. Let the customer speak - do not interrupt\<newline>'' @
     ''3. When customer says something, let them finish completely\<newline>'' @
     ''4. Listen patiently and understand\<newline>'' @
     ''5. Collect all information before confirming the order\<newline>'' @
     ''\<newline>'' @
     ''Order taking process:\<newline>'' @
     ''1. Say Namaste and ask what they want to order\<newline>'' @
     ''2. Note the item name\<newline>'' @
     ''3. Ask for quantity\<newline>'' @
     ''4. Ask for delivery address\<newline>'' @
     ''5. Confirm contact number\<newline>'' @
     ''6. Repeat all order information\<newline>'' @
     ''7. Ask for confirmation\<newline>'' @
     ''\<newline>'' @
     ''Remember:\<newline>'' @
     ''- Speak in short sentences\<newline>'' @
     ''- Wait for customer response\<newline>'' @
     ''- Be polite and helpful\<newline>'' @
     ''- If you don't understand, ask again\<newline>'' @
     ''\<newline>'' @
     ''Start with: Namaste! Main aapke order mein madad karunga. Aap kya order karna chahte hain?''"

definition startup_event :: "env \<Rightarrow> world \<Rightarrow> world" where
  "startup_event e w =
     (case find_one (\<lambda>d. a_name d = ''Order Taking Agent'') (agents w) of
        Some existing \<Rightarrow> w
      | None \<Rightarrow>
          (let (order_agent, w1) = new_Agent e ''Order Taking Agent''
                                     ''Hindi voice bot for taking customer orders''
                                     default_system_prompt ''hindi'' w;
               doc = agent_with_created_at (Str (isoformat (a_created_at order_agent))) order_agent
           in w1\<lparr>agents := agents w1 @ [doc]\<rparr>))"

subsection \<open>The application as a whole\<close>

text \<open>One request to the HTTP surface, or a run of the startup routine, and its effect on the state.\<close>

datatype request =
    PostAgent AgentCreate
  | GetAgents
  | GetAgent string
  | PutAgent string AgentUpdate
  | DeleteAgent string
  | PostLLMConfig LLMConfigCreate
  | GetLLMConfigs
  | DeleteLLMConfig string
  | PostChat ChatRequest
  | Startup

fun handle :: "env \<Rightarrow> request \<Rightarrow> world \<Rightarrow> world" where
  "handle e (PostAgent b) w = snd (create_agent e b w)"
| "handle e GetAgents w = snd (get_agents w)"
| "handle e (GetAgent i) w = snd (get_agent i w)"
| "handle e (PutAgent i b) w = snd (update_agent i b w)"
| "handle e (DeleteAgent i) w = snd (delete_agent i w)"
| "handle e (PostLLMConfig b) w = snd (create_llm_config e b w)"
| "handle e GetLLMConfigs w = snd (get_llm_configs w)"
| "handle e (DeleteLLMConfig i) w = snd (delete_llm_config i w)"
| "handle e (PostChat b) w = snd (chat_with_agent e b w)"
| "handle e Startup w = startup_event e w"

fun run :: "env \<Rightarrow> request list \<Rightarrow> world \<Rightarrow> world" where
  "run e [] w = w"
| "run e (r # rs) w = run e rs (handle e r w)"

text \<open>The two roles the source names for a conversation message.\<close>

definition role_ok :: "'t ConversationMessage \<Rightarrow> bool" where
  "role_ok m = (m_role m = ''user'' \<or> m_role m = ''assistant'')"

definition empty_world :: world where
  "empty_world = \<lparr>agents = [], llm_configs = [], conversations = [],
                   uuid_calls = 0, now_calls = 0, llm_calls = []\<rparr>"

subsection \<open>A small concrete environment and state\<close>

text \<open>
  Used to run the handlers on concrete inputs: identifiers \<open>id-\<close>, \<open>id-i\<close>, \<open>id-ii\<close>, ...,
  a clock, a provider that fails on the message \<open>fail\<close>, and a state holding one agent
  created with the first identifier and the first clock reading.
\<close>

definition demo_time :: "nat \<Rightarrow> datetime" where
  "demo_time n = \<lparr>year = 2025, month = 1, day = 15, hour = 10, minute = 30, second = n mod 60,
                  microsecond = 0, utcoffset = None\<rparr>"

definition demo_env :: env where
  "demo_env = \<lparr>env_api_key = Some ''sk-test'',
               uuid4_src = (\<lambda>n. ''id-'' @ replicate n CHR ''i''),
               clock = demo_time,
               provider = (\<lambda>n c. if lc_text c = ''fail'' then Inl (ProviderError ''timeout'')
                                  else Inr ''Namaste!'')\<rparr>"

definition demo_agent :: "stored_time Agent" where
  "demo_agent = \<lparr>a_id = ''id-'', a_name = ''Test'', a_description = ''d'',
                 a_system_prompt = ''p'', a_language = ''english'', a_is_active = True,
                 a_created_at = Str ''2025-01-15T10:30:00+00:00''\<rparr>"

definition demo_world :: world where
  "demo_world = empty_world\<lparr>agents := [demo_agent], uuid_calls := 1, now_calls := 1\<rparr>"

definition demo_chat :: "string \<Rightarrow> string option \<Rightarrow> ChatRequest" where
  "demo_chat text sid = \<lparr>rq_agent_id = ''id-'', rq_message = text, rq_session_id = sid\<rparr>"

definition demo_config :: "stored_time LLMConfig" where
  "demo_config = \<lparr>c_id = ''cfg-1'', c_provider = ''openai'', c_api_key = ''sk-other'',
                  c_model_name = ''gpt-4o'', c_created_at = Str ''2025-01-15T10:30:00+00:00''\<rparr>"

definition demo_create :: AgentCreate where
  "demo_create = \<lparr>ac_name = ''Test'', ac_description = ''d'', ac_system_prompt = ''p'',
                  ac_language = ''english''\<rparr>"





section \<open>Timestamps round-trip through their ISO string\<close>



lemma pad_6: "pad 6 n = [digit (n div 100000), digit (n div 10000), digit (n div 1000),
                         digit (n div 100), digit (n div 10), digit n]"
proof -
  have "pad (Suc (Suc (Suc (Suc (Suc (Suc 0)))))) n
          = [digit (n div 100000), digit (n div 10000), digit (n div 1000),
             digit (n div 100), digit (n div 10), digit n]" by simp
  moreover have "(6::nat) = Suc (Suc (Suc (Suc (Suc (Suc 0)))))" by simp
  ultimately show ?thesis by (simp only:)
qed

lemma digit_val_nth: "k < 10 \<Longrightarrow> digit_val (''0123456789'' ! k) = Some k"
proof -
  assume "k < 10"
  then have "k \<in> {0,1,2,3,4,5,6,7,8,9}" by auto
  then show ?thesis by (auto simp: digit_val_def)
qed

lemma digit_val_digit: "digit_val (digit n) = Some (n mod 10)"
  unfolding digit_def by (rule digit_val_nth) simp

lemma take_num_pad_mod: "take_num k (pad k n @ r) = Some (n mod 10 ^ k, r)"
proof (induction k)
  case 0
  then show ?case by simp
next
  case (Suc k)
  have "n mod (10 ^ k * 10) = 10 ^ k * (n div 10 ^ k mod 10) + n mod 10 ^ k"
    by (rule mod_mult2_eq)
  then have "n div 10 ^ k mod 10 * 10 ^ k + n mod 10 ^ k = n mod 10 ^ Suc k"
    by (simp add: mult.commute)
  with Suc show ?case by (simp add: digit_val_digit del: power_Suc)
qed

lemma take_num_pad: "n < 10 ^ k \<Longrightarrow> take_num k (pad k n @ r) = Some (n, r)"
  by (simp add: take_num_pad_mod)

lemma take_num_pad_Cons: "n < 10 ^ k \<Longrightarrow> take_num k (pad k n @ c # r) = Some (n, c # r)"
  by (rule take_num_pad)

lemma take_num_pad_Nil: "n < 10 ^ k \<Longrightarrow> take_num k (pad k n) = Some (n, [])"
  using take_num_pad [of n k "[]"] by simp

lemma parse_hh_mm_pad:
  assumes "a < 1440"
  shows "parse_hh_mm (pad 2 (a div 60) @ '':'' @ pad 2 (a mod 60)) = Some a"
proof -
  from assms have h: "a div 60 < 10 ^ 2" and l: "a mod 60 < 10 ^ 2" by auto
  have e: "a div 60 * 60 + a mod 60 = a" by simp
  show ?thesis
    unfolding parse_hh_mm_def
    by (simp add: take_num_pad_Cons [OF h] take_num_pad_Nil [OF l] expect_def e)
qed

lemma parse_offset_format:
  assumes "case off of None \<Rightarrow> True | Some m \<Rightarrow> - 1440 < m \<and> m < 1440"
  shows "parse_offset (format_offset off) = Some off"
proof (cases off)
  case None
  then show ?thesis by (simp add: parse_offset_def format_offset_def)
next
  case (Some m)
  with assms have b: "- 1440 < m" "m < 1440" by simp_all
  show ?thesis
  proof (cases "m < 0")
    case True
    with b have "nat (- m) < 1440" by simp
    from parse_hh_mm_pad [OF this] Some True show ?thesis
      by (simp add: parse_offset_def format_offset_def)
  next
    case False
    with b have "nat m < 1440" by simp
    from parse_hh_mm_pad [OF this] Some False show ?thesis
      by (simp add: parse_offset_def format_offset_def)
  qed
qed

lemma parse_fraction_offset: "parse_fraction (format_offset off) = Some (0, format_offset off)"
  by (cases off) (simp_all add: parse_fraction_def format_offset_def)

lemma parse_time_format:
  assumes "hh < 24" "mi < 60" "ss < 60" "us < 1000000"
  shows "parse_time (format_time hh mi ss us @ format_offset off)
           = Some ((hh, mi, ss, us), format_offset off)"
proof -
  from assms have h: "hh < 10 ^ 2" and m: "mi < 10 ^ 2" and s: "ss < 10 ^ 2" and u: "us < 10 ^ 6"
    by simp_all
  show ?thesis
  proof (cases "us = 0")
    case True
    then show ?thesis
      unfolding parse_time_def format_time_def
      by (simp add: take_num_pad_Cons [OF h] take_num_pad_Cons [OF m] take_num_pad [OF s]
          expect_def parse_fraction_offset)
  next
    case False
    then show ?thesis
      unfolding parse_time_def format_time_def
      by (simp add: take_num_pad_Cons [OF h] take_num_pad_Cons [OF m] take_num_pad_Cons [OF s]
          take_num_pad [OF u] expect_def parse_fraction_def)
  qed
qed

lemma parse_date_format:
  assumes "y < 10000" "mo < 100" "dd < 100"
  shows "parse_date (pad 4 y @ CHR ''-'' # pad 2 mo @ CHR ''-'' # pad 2 dd @ c # r)
           = Some ((y, mo, dd), c # r)"
proof -
  from assms have y: "y < 10 ^ 4" and m: "mo < 10 ^ 2" and d: "dd < 10 ^ 2" by simp_all
  show ?thesis
    unfolding parse_date_def
    by (simp add: take_num_pad_Cons [OF y] take_num_pad_Cons [OF m] take_num_pad_Cons [OF d]
        expect_def)
qed

lemma fromisoformat_isoformat:
  assumes "valid_datetime d"
  shows "fromisoformat (isoformat d) = Some d"
proof -
  from assms have y: "year d < 10000" and mo: "month d < 100" and hh: "hour d < 24"
    and mi: "minute d < 60" and ss: "second d < 60" and us: "microsecond d < 1000000"
    and off: "case utcoffset d of None \<Rightarrow> True | Some m \<Rightarrow> - 1440 < m \<and> m < 1440"
    by (simp_all add: valid_datetime_def)
  from assms have "day d \<le> days_in_month (year d) (month d)" by (simp add: valid_datetime_def)
  then have dd: "day d < 100" by (simp add: days_in_month_def split: if_splits)
  have e: "\<lparr>year = year d, month = month d, day = day d, hour = hour d, minute = minute d,
            second = second d, microsecond = microsecond d, utcoffset = utcoffset d\<rparr> = d"
    by simp
  show ?thesis
    unfolding isoformat_def fromisoformat_def
    using assms
    by (simp add: parse_date_format [OF y mo dd] skip_sep_def
        parse_time_format [OF hh mi ss us] parse_offset_format [OF off] e)
qed


section \<open>The chat gateway\<close>

lemma find_one_None: "find_one q docs = None \<longleftrightarrow> (\<forall>d\<in>set docs. \<not> q d)"
  by (auto simp: find_one_def find_None_iff)

lemma chat_with_agent_found:
  assumes "find_one (\<lambda>d. a_id d = rq_agent_id request) (agents w) = Some agent"
    and "resolve_session_id e (rq_session_id request) w = (sid, w1)"
  shows "chat_with_agent e request w =
     (case provider e (length (llm_calls w1)) (gemini_chat e sid agent (rq_message request)) of
        Inl x \<Rightarrow> (Inl (Unhandled x),
                  w1\<lparr>llm_calls := llm_calls w1 @ [gemini_chat e sid agent (rq_message request)]\<rparr>)
      | Inr response \<Rightarrow>
          (Inr \<lparr>rs_response = response, rs_session_id = sid\<rparr>,
           w1\<lparr>llm_calls := llm_calls w1 @ [gemini_chat e sid agent (rq_message request)],
              uuid_calls := Suc (Suc (uuid_calls w1)),
              now_calls := Suc (Suc (now_calls w1)),
              conversations := conversations w1 @
                [\<lparr>m_id = uuid4_src e (uuid_calls w1), m_session_id = sid,
                  m_agent_id = rq_agent_id request, m_role = ''user'',
                  m_content = rq_message request,
                  m_timestamp = Str (isoformat ((clock e (now_calls w1))\<lparr>utcoffset := Some 0\<rparr>))\<rparr>,
                 \<lparr>m_id = uuid4_src e (Suc (uuid_calls w1)), m_session_id = sid,
                  m_agent_id = rq_agent_id request, m_role = ''assistant'',
                  m_content = response,
                  m_timestamp = Str (isoformat ((clock e (Suc (now_calls w1)))\<lparr>utcoffset := Some 0\<rparr>))\<rparr>]\<rparr>))"
  using assms
  by (simp add: chat_with_agent_def send_message_def new_ConversationMessage_def uuid4_def
      now_utc_def message_with_timestamp_def Let_def split: sum.splits)

lemma resolve_session_id_cases:
  "resolve_session_id e sid w =
     (if sid = None \<or> sid = Some [] then (uuid4_src e (uuid_calls w), w\<lparr>uuid_calls := Suc (uuid_calls w)\<rparr>)
      else (the sid, w))"
  by (simp add: resolve_session_id_def uuid4_def split: option.splits)

lemma resolve_session_id_store:
  assumes "resolve_session_id e sid w = (s, w1)"
  shows "agents w1 = agents w" "llm_configs w1 = llm_configs w" "conversations w1 = conversations w"
    "llm_calls w1 = llm_calls w" "now_calls w1 = now_calls w"
  using assms by (auto simp: resolve_session_id_cases split: if_splits)

lemma demo_world_fields:
  "agents demo_world = [demo_agent]" "llm_configs demo_world = []"
  "conversations demo_world = []" "uuid_calls demo_world = 1" "now_calls demo_world = 1"
  "llm_calls demo_world = []"
  by (simp_all add: demo_world_def empty_world_def)

lemma demo_env_fields:
  "uuid4_src demo_env n = ''id-'' @ replicate n CHR ''i''"
  "provider demo_env k c = (if lc_text c = ''fail'' then Inl (ProviderError ''timeout'')
                            else Inr ''Namaste!'')"
  "clock demo_env = demo_time" "env_api_key demo_env = Some ''sk-test''"
  by (simp_all add: demo_env_def)

lemma find_one_demo: "find_one (\<lambda>d. a_id d = ''id-'') (agents demo_world) = Some demo_agent"
  by (simp add: find_one_def demo_world_fields) (simp add: demo_agent_def)

lemma inj_demo_uuid4: "inj (uuid4_src demo_env)"
  by (auto simp: inj_def demo_env_fields dest: arg_cong [where f = length])

lemma resolve_demo_minted:
  "sid = None \<or> sid = Some [] \<Longrightarrow>
   resolve_session_id demo_env sid demo_world = (''id-i'', demo_world\<lparr>uuid_calls := 2\<rparr>)"
  by (auto simp: resolve_session_id_def uuid4_def demo_env_fields demo_world_fields)

lemma resolve_demo_given:
  "s \<noteq> [] \<Longrightarrow> resolve_session_id demo_env (Some s) demo_world = (s, demo_world)"
  by (simp add: resolve_session_id_def)

lemma demo_chat_result:
  assumes "resolve_session_id demo_env sid demo_world = (s, w1)"
  shows "chat_with_agent demo_env (demo_chat text sid) demo_world =
     (if text = ''fail''
      then (Inl (Unhandled (ProviderError ''timeout'')),
            w1\<lparr>llm_calls := [gemini_chat demo_env s demo_agent text]\<rparr>)
      else (Inr \<lparr>rs_response = ''Namaste!'', rs_session_id = s\<rparr>,
            w1\<lparr>llm_calls := [gemini_chat demo_env s demo_agent text],
               uuid_calls := Suc (Suc (uuid_calls w1)),
               now_calls := 3,
               conversations :=
                 [\<lparr>m_id = uuid4_src demo_env (uuid_calls w1), m_session_id = s,
                   m_agent_id = ''id-'', m_role = ''user'', m_content = text,
                   m_timestamp = Str (isoformat ((demo_time 1)\<lparr>utcoffset := Some 0\<rparr>))\<rparr>,
                  \<lparr>m_id = uuid4_src demo_env (Suc (uuid_calls w1)), m_session_id = s,
                   m_agent_id = ''id-'', m_role = ''assistant'', m_content = ''Namaste!'',
                   m_timestamp = Str (isoformat ((demo_time 2)\<lparr>utcoffset := Some 0\<rparr>))\<rparr>]\<rparr>))"
proof -
  have a: "find_one (\<lambda>d. a_id d = rq_agent_id (demo_chat text sid)) (agents demo_world)
             = Some demo_agent"
    by (simp add: demo_chat_def find_one_demo)
  have r: "resolve_session_id demo_env (rq_session_id (demo_chat text sid)) demo_world = (s, w1)"
    using assms by (simp add: demo_chat_def)
  have st: "llm_calls w1 = []" "conversations w1 = []" "now_calls w1 = 1"
    using resolve_session_id_store [OF assms] by (simp_all add: demo_world_fields)
  have m: "rq_message (demo_chat text sid) = text" "rq_agent_id (demo_chat text sid) = ''id-''"
    by (simp_all add: demo_chat_def)
  have n: "Suc (Suc (Suc 0)) = 3" by simp
  have p: "provider demo_env k (gemini_chat demo_env s demo_agent t) =
             (if t = ''fail'' then Inl (ProviderError ''timeout'') else Inr ''Namaste!'')" for k t
    by (simp add: demo_env_fields(2) gemini_chat_def)
  show ?thesis
    unfolding chat_with_agent_found [OF a r] st m
    by (cases "text = ''fail''") (simp_all add: p demo_env_fields(3) n del: One_nat_def)
qed

lemma chat_with_agent_Inr_found:
  assumes "chat_with_agent e request w = (Inr resp, w')"
  obtains agent where "find_one (\<lambda>d. a_id d = rq_agent_id request) (agents w) = Some agent"
  using assms by (cases "find_one (\<lambda>d. a_id d = rq_agent_id request) (agents w)")
    (simp_all add: chat_with_agent_def)

text \<open>
  Claim C1. A chat request whose \<^verbatim>\<open>agent_id\<close> matches no stored agent raises
  \<^verbatim>\<open>HTTPException(404, "Agent not found")\<close> and leaves the whole state as it was: no
  conversation message is written, no identifier or timestamp is drawn and the provider is
  not called.
\<close>

theorem chat_unknown_agent:
  assumes "\<forall>d\<in>set (agents w). a_id d \<noteq> rq_agent_id request"
  shows "chat_with_agent e request w = (Inl (HTTPException 404 ''Agent not found''), w)"
proof -
  from assms have "find_one (\<lambda>d. a_id d = rq_agent_id request) (agents w) = None"
    by (simp add: find_one_None)
  then show ?thesis by (simp add: chat_with_agent_def)
qed

theorem chat_unknown_agent_witness:
  "chat_with_agent demo_env \<lparr>rq_agent_id = ''agent-2'', rq_message = ''hello'', rq_session_id = None\<rparr>
     demo_world = (Inl (HTTPException 404 ''Agent not found''), demo_world)"
  using chat_unknown_agent [of demo_world "\<lparr>rq_agent_id = ''agent-2'', rq_message = ''hello'', rq_session_id = None\<rparr>" demo_env]
  by (simp add: demo_world_def demo_agent_def empty_world_def)


text \<open>
  Claim C2. When the agent exists and the provider call raises, the exception leaves the
  handler uncaught (a server error), the provider has been called exactly once (no retry), and
  the three collections are as before: no conversation message has been written, since both
  turns are inserted only after the reply.
\<close>

theorem chat_provider_failure:
  assumes "find_one (\<lambda>d. a_id d = rq_agent_id request) (agents w) = Some agent"
    and "resolve_session_id e (rq_session_id request) w = (sid, w1)"
    and "provider e (length (llm_calls w)) (gemini_chat e sid agent (rq_message request)) = Inl x"
  shows "fst (chat_with_agent e request w) = Inl (Unhandled x) \<and>
         conversations (snd (chat_with_agent e request w)) = conversations w \<and>
         agents (snd (chat_with_agent e request w)) = agents w \<and>
         llm_configs (snd (chat_with_agent e request w)) = llm_configs w \<and>
         llm_calls (snd (chat_with_agent e request w)) =
           llm_calls w @ [gemini_chat e sid agent (rq_message request)]"
proof -
  note st = resolve_session_id_store [OF assms(2)]
  from assms(3) st(4)
  have "provider e (length (llm_calls w1)) (gemini_chat e sid agent (rq_message request)) = Inl x"
    by simp
  with chat_with_agent_found [OF assms(1,2)]
  have "chat_with_agent e request w =
          (Inl (Unhandled x),
           w1\<lparr>llm_calls := llm_calls w1 @ [gemini_chat e sid agent (rq_message request)]\<rparr>)"
    by simp
  with st show ?thesis by simp
qed

theorem chat_provider_failure_witness:
  "fst (chat_with_agent demo_env (demo_chat ''fail'' (Some ''s-42'')) demo_world)
     = Inl (Unhandled (ProviderError ''timeout'')) \<and>
   conversations (snd (chat_with_agent demo_env (demo_chat ''fail'' (Some ''s-42'')) demo_world)) = [] \<and>
   length (llm_calls (snd (chat_with_agent demo_env (demo_chat ''fail'' (Some ''s-42'')) demo_world))) = 1"
proof -
  have a: "find_one (\<lambda>d. a_id d = rq_agent_id (demo_chat ''fail'' (Some ''s-42''))) (agents demo_world)
             = Some demo_agent"
    by (simp add: demo_chat_def find_one_demo)
  have r: "resolve_session_id demo_env (rq_session_id (demo_chat ''fail'' (Some ''s-42''))) demo_world
             = (''s-42'', demo_world)"
    by (simp add: demo_chat_def resolve_demo_given)
  have p: "provider demo_env (length (llm_calls demo_world))
             (gemini_chat demo_env ''s-42'' demo_agent (rq_message (demo_chat ''fail'' (Some ''s-42''))))
             = Inl (ProviderError ''timeout'')"
    by (simp add: demo_env_fields(2) gemini_chat_def demo_chat_def)
  from chat_provider_failure [OF a r p] show ?thesis
    by (simp add: demo_world_fields)
qed

text \<open>
  Claim C3, as the code has it. A request with a non-empty \<^verbatim>\<open>session_id\<close> gets that same
  identifier back. A request with no \<^verbatim>\<open>session_id\<close>, or with the empty string (falsy for
  Python's \<^verbatim>\<open>or\<close>), gets the next value of \<^verbatim>\<open>uuid4\<close>, which differs from every value
  drawn before whenever \<^verbatim>\<open>uuid4\<close> never returns the same value twice.
\<close>

theorem chat_session_id:
  assumes "chat_with_agent e request w = (Inr resp, w')"
  shows "(\<forall>s. rq_session_id request = Some s \<and> s \<noteq> [] \<longrightarrow> rs_session_id resp = s) \<and>
         (rq_session_id request = None \<or> rq_session_id request = Some [] \<longrightarrow>
            rs_session_id resp = uuid4_src e (uuid_calls w) \<and>
            (inj (uuid4_src e) \<longrightarrow> (\<forall>k<uuid_calls w. rs_session_id resp \<noteq> uuid4_src e k)))"
proof -
  from assms obtain agent
    where a: "find_one (\<lambda>d. a_id d = rq_agent_id request) (agents w) = Some agent"
    by (rule chat_with_agent_Inr_found)
  obtain sid w1 where r: "resolve_session_id e (rq_session_id request) w = (sid, w1)"
    by (cases "resolve_session_id e (rq_session_id request) w")
  from chat_with_agent_found [OF a r] assms have s: "rs_session_id resp = sid"
    by (auto split: sum.splits)
  from r have "sid = (if rq_session_id request = None \<or> rq_session_id request = Some []
                      then uuid4_src e (uuid_calls w) else the (rq_session_id request))"
    by (auto simp: resolve_session_id_cases split: if_splits)
  with s show ?thesis by (auto dest: injD)
qed

theorem chat_session_id_witness:
  "fst (chat_with_agent demo_env (demo_chat ''hello'' None) demo_world)
     = Inr \<lparr>rs_response = ''Namaste!'', rs_session_id = ''id-i''\<rparr> \<and>
   ''id-i'' \<noteq> uuid4_src demo_env 0"
proof -
  have r: "resolve_session_id demo_env None demo_world = (''id-i'', demo_world\<lparr>uuid_calls := 2\<rparr>)"
    by (simp add: resolve_demo_minted)
  have f: "fst (chat_with_agent demo_env (demo_chat ''hello'' None) demo_world)
          = Inr \<lparr>rs_response = ''Namaste!'', rs_session_id = ''id-i''\<rparr>"
    by (simp add: demo_chat_result [OF r])
  then have "chat_with_agent demo_env (demo_chat ''hello'' None) demo_world
          = (Inr \<lparr>rs_response = ''Namaste!'', rs_session_id = ''id-i''\<rparr>,
             snd (chat_with_agent demo_env (demo_chat ''hello'' None) demo_world))"
    by (simp add: prod_eq_iff)
  from chat_session_id [OF this] inj_demo_uuid4
  have "''id-i'' \<noteq> uuid4_src demo_env 0"
    by (auto simp: demo_chat_def demo_world_fields)
  with f show ?thesis by simp
qed

text \<open>
  The claim as stated fails for an explicit empty \<^verbatim>\<open>session_id\<close>: the response carries a
  minted identifier, not the one provided.
\<close>

theorem chat_empty_session_id_counterexample:
  "rq_session_id (demo_chat ''hello'' (Some [])) = Some [] \<and>
   fst (chat_with_agent demo_env (demo_chat ''hello'' (Some [])) demo_world)
     = Inr \<lparr>rs_response = ''Namaste!'', rs_session_id = ''id-i''\<rparr>"
proof -
  have r: "resolve_session_id demo_env (Some []) demo_world = (''id-i'', demo_world\<lparr>uuid_calls := 2\<rparr>)"
    by (simp add: resolve_demo_minted)
  show ?thesis
    by (simp add: demo_chat_result [OF r]) (simp add: demo_chat_def)
qed

text \<open>
  Claim C7. A successful chat appends exactly two documents to the conversations: the user
  turn, then the assistant turn. Both carry the session identifier that is returned and the
  agent identifier of the request; the content of the assistant turn is the reply returned.
  Each turn has its own identifier, the last two draws of \<^verbatim>\<open>uuid4\<close>, and its own
  timestamp, two successive readings of the clock.
\<close>

theorem chat_persists_two_turns:
  assumes "chat_with_agent e request w = (Inr resp, w')"
  shows "conversations w' = conversations w @
           [\<lparr>m_id = uuid4_src e (uuid_calls w' - 2), m_session_id = rs_session_id resp,
             m_agent_id = rq_agent_id request, m_role = ''user'',
             m_content = rq_message request,
             m_timestamp = Str (isoformat ((clock e (now_calls w))\<lparr>utcoffset := Some 0\<rparr>))\<rparr>,
            \<lparr>m_id = uuid4_src e (uuid_calls w' - 1), m_session_id = rs_session_id resp,
             m_agent_id = rq_agent_id request, m_role = ''assistant'',
             m_content = rs_response resp,
             m_timestamp = Str (isoformat ((clock e (Suc (now_calls w)))\<lparr>utcoffset := Some 0\<rparr>))\<rparr>] \<and>
         now_calls w' = now_calls w + 2 \<and> uuid_calls w + 2 \<le> uuid_calls w'"
proof -
  from assms obtain agent
    where a: "find_one (\<lambda>d. a_id d = rq_agent_id request) (agents w) = Some agent"
    by (rule chat_with_agent_Inr_found)
  obtain sid w1 where r: "resolve_session_id e (rq_session_id request) w = (sid, w1)"
    by (cases "resolve_session_id e (rq_session_id request) w")
  note st = resolve_session_id_store [OF r]
  from r have u: "uuid_calls w \<le> uuid_calls w1"
    by (auto simp: resolve_session_id_cases split: if_splits)
  show ?thesis
  proof (cases "provider e (length (llm_calls w1)) (gemini_chat e sid agent (rq_message request))")
    case (Inl x)
    with chat_with_agent_found [OF a r] assms show ?thesis by simp
  next
    case (Inr response)
    with chat_with_agent_found [OF a r] assms st u show ?thesis by auto
  qed
qed

theorem chat_persists_two_turns_witness:
  "map m_role (conversations (snd (chat_with_agent demo_env (demo_chat ''hello'' (Some ''s-42'')) demo_world)))
     = [''user'', ''assistant''] \<and>
   map m_content (conversations (snd (chat_with_agent demo_env (demo_chat ''hello'' (Some ''s-42'')) demo_world)))
     = [''hello'', ''Namaste!'']"
proof -
  have r: "resolve_session_id demo_env (Some ''s-42'') demo_world = (''s-42'', demo_world)"
    by (simp add: resolve_demo_given)
  have "fst (chat_with_agent demo_env (demo_chat ''hello'' (Some ''s-42'')) demo_world)
          = Inr \<lparr>rs_response = ''Namaste!'', rs_session_id = ''s-42''\<rparr>"
    by (simp add: demo_chat_result [OF r])
  then have "chat_with_agent demo_env (demo_chat ''hello'' (Some ''s-42'')) demo_world
          = (Inr \<lparr>rs_response = ''Namaste!'', rs_session_id = ''s-42''\<rparr>,
             snd (chat_with_agent demo_env (demo_chat ''hello'' (Some ''s-42'')) demo_world))"
    by (simp add: prod_eq_iff)
  from chat_persists_two_turns [OF this] show ?thesis
    by (simp add: demo_world_fields demo_chat_def)
qed

text \<open>
  Claim C9. The chat handler does not read the LLM configurations: run on a state whose
  \<^verbatim>\<open>llm_configs\<close> are replaced by any others, it returns the same result and the same
  state up to that collection, and every provider call it makes names the provider
  \<^verbatim>\<open>gemini\<close> and the model \<^verbatim>\<open>gemini-2.0-flash\<close>.
\<close>

theorem chat_ignores_llm_configs:
  "chat_with_agent e request (w\<lparr>llm_configs := cfgs\<rparr>) =
     (fst (chat_with_agent e request w), (snd (chat_with_agent e request w))\<lparr>llm_configs := cfgs\<rparr>) \<and>
   (\<forall>c\<in>set (drop (length (llm_calls w)) (llm_calls (snd (chat_with_agent e request w)))).
      lc_provider c = ''gemini'' \<and> lc_model c = ''gemini-2.0-flash'')"
proof
  show "chat_with_agent e request (w\<lparr>llm_configs := cfgs\<rparr>) =
     (fst (chat_with_agent e request w), (snd (chat_with_agent e request w))\<lparr>llm_configs := cfgs\<rparr>)"
    by (simp add: chat_with_agent_def resolve_session_id_def uuid4_def send_message_def
        new_ConversationMessage_def now_utc_def Let_def
        split: option.splits sum.splits)
next
  show "\<forall>c\<in>set (drop (length (llm_calls w)) (llm_calls (snd (chat_with_agent e request w)))).
      lc_provider c = ''gemini'' \<and> lc_model c = ''gemini-2.0-flash''"
  proof (cases "find_one (\<lambda>d. a_id d = rq_agent_id request) (agents w)")
    case None
    then show ?thesis by (simp add: chat_with_agent_def)
  next
    case (Some agent)
    obtain sid w1 where r: "resolve_session_id e (rq_session_id request) w = (sid, w1)"
      by (cases "resolve_session_id e (rq_session_id request) w")
    note st = resolve_session_id_store [OF r]
    from chat_with_agent_found [OF Some r] st show ?thesis
      by (simp add: gemini_chat_def split: sum.splits)
  qed
qed

theorem chat_ignores_llm_configs_witness:
  "chat_with_agent demo_env (demo_chat ''hello'' None) (demo_world\<lparr>llm_configs := [demo_config]\<rparr>) =
     (fst (chat_with_agent demo_env (demo_chat ''hello'' None) demo_world),
      (snd (chat_with_agent demo_env (demo_chat ''hello'' None) demo_world))\<lparr>llm_configs := [demo_config]\<rparr>) \<and>
   map lc_provider (llm_calls (snd (chat_with_agent demo_env (demo_chat ''hello'' None) demo_world)))
     = [''gemini''] \<and>
   map lc_model (llm_calls (snd (chat_with_agent demo_env (demo_chat ''hello'' None) demo_world)))
     = [''gemini-2.0-flash'']"
proof -
  have r: "resolve_session_id demo_env None demo_world = (''id-i'', demo_world\<lparr>uuid_calls := 2\<rparr>)"
    by (simp add: resolve_demo_minted)
  have c: "llm_calls (snd (chat_with_agent demo_env (demo_chat ''hello'' None) demo_world))
             = [gemini_chat demo_env ''id-i'' demo_agent ''hello'']"
    by (simp add: demo_chat_result [OF r])
  from chat_ignores_llm_configs [where e = demo_env and request = "demo_chat ''hello'' None"
      and w = demo_world and cfgs = "[demo_config]"]
  show ?thesis
    by (simp add: c demo_world_fields)
qed

section \<open>The agent registry\<close>

lemma find_one_append:
  "find_one q (xs @ ys) = (case find_one q xs of None \<Rightarrow> find_one q ys | Some d \<Rightarrow> Some d)"
  by (induction xs) (simp_all add: find_one_def)

lemma find_one_Some_holds: "find_one q xs = Some d \<Longrightarrow> q d \<and> d \<in> set xs"
  by (auto simp: find_one_def find_Some_iff)

lemma valid_datetime_utc: "valid_datetime d \<Longrightarrow> valid_datetime (d\<lparr>utcoffset := Some 0\<rparr>)"
  by (simp add: valid_datetime_def)

lemma rehydrate_time_isoformat:
  "valid_datetime d \<Longrightarrow> rehydrate_time (Str (isoformat d)) = Inr d"
  by (simp add: rehydrate_time_def fromisoformat_isoformat)

lemma agent_with_created_at_fields:
  "a_id (agent_with_created_at v a) = a_id a"
  "a_name (agent_with_created_at v a) = a_name a"
  "a_description (agent_with_created_at v a) = a_description a"
  "a_system_prompt (agent_with_created_at v a) = a_system_prompt a"
  "a_language (agent_with_created_at v a) = a_language a"
  "a_is_active (agent_with_created_at v a) = a_is_active a"
  "a_created_at (agent_with_created_at v a) = v"
  by (simp_all add: agent_with_created_at_def)

lemma agent_with_created_at_twice:
  "agent_with_created_at v (agent_with_created_at u a) = agent_with_created_at v a"
  by (simp add: agent_with_created_at_def)

lemma agent_with_created_at_same:
  "agent_with_created_at (a_created_at a) a = (a :: 't Agent)"
  by (simp add: agent_with_created_at_def)

lemma create_agent_result:
  "create_agent e agent_data w =
     (let agent = \<lparr>a_id = uuid4_src e (uuid_calls w), a_name = ac_name agent_data,
                   a_description = ac_description agent_data,
                   a_system_prompt = ac_system_prompt agent_data,
                   a_language = ac_language agent_data, a_is_active = True,
                   a_created_at = (clock e (now_calls w))\<lparr>utcoffset := Some 0\<rparr>\<rparr>
      in (Inr agent,
          w\<lparr>uuid_calls := Suc (uuid_calls w), now_calls := Suc (now_calls w),
            agents := agents w @ [agent_with_created_at (Str (isoformat (a_created_at agent))) agent]\<rparr>))"
  by (simp add: create_agent_def new_Agent_def uuid4_def now_utc_def Let_def)

text \<open>
  Claim C5. When the clock reading is a valid \<^verbatim>\<open>datetime\<close> and the identifier drawn is not
  yet the identifier of a stored agent, Create succeeds and Get on the identifier it returns
  yields the very record Create returned: the fields of the body, \<^verbatim>\<open>is_active\<close> true, and
  the creation time, which survives the way through its ISO-8601 string unchanged (to the
  microsecond, hence to the second).
\<close>

theorem create_then_get:
  assumes "valid_datetime (clock e (now_calls w))"
    and "\<forall>d\<in>set (agents w). a_id d \<noteq> uuid4_src e (uuid_calls w)"
  shows "\<exists>agent w'. create_agent e agent_data w = (Inr agent, w') \<and>
           get_agent (a_id agent) w' = (Inr agent, w') \<and>
           a_id agent = uuid4_src e (uuid_calls w) \<and>
           a_name agent = ac_name agent_data \<and>
           a_description agent = ac_description agent_data \<and>
           a_system_prompt agent = ac_system_prompt agent_data \<and>
           a_language agent = ac_language agent_data \<and>
           a_is_active agent \<and>
           a_created_at agent = (clock e (now_calls w))\<lparr>utcoffset := Some 0\<rparr>"
proof -
  define t where "t = (clock e (now_calls w))\<lparr>utcoffset := Some 0\<rparr>"
  define agent :: "datetime Agent" where
    "agent = \<lparr>a_id = uuid4_src e (uuid_calls w), a_name = ac_name agent_data,
              a_description = ac_description agent_data,
              a_system_prompt = ac_system_prompt agent_data,
              a_language = ac_language agent_data, a_is_active = True, a_created_at = t\<rparr>"
  define doc where "doc = agent_with_created_at (Str (isoformat t)) agent"
  define w' where "w' = w\<lparr>uuid_calls := Suc (uuid_calls w), now_calls := Suc (now_calls w),
                          agents := agents w @ [doc]\<rparr>"
  have c: "create_agent e agent_data w = (Inr agent, w')"
    by (simp add: create_agent_result Let_def agent_def doc_def w'_def t_def)
  from assms(2) have "find_one (\<lambda>d. a_id d = a_id agent) (agents w) = None"
    by (simp add: find_one_None agent_def)
  then have f: "find_one (\<lambda>d. a_id d = a_id agent) (agents w') = Some doc"
    by (simp add: w'_def find_one_append) (simp add: find_one_def doc_def agent_with_created_at_fields)
  from assms(1) have "valid_datetime t" unfolding t_def by (rule valid_datetime_utc)
  then have "rehydrate_time (a_created_at doc) = Inr t"
    by (simp add: doc_def agent_with_created_at_fields rehydrate_time_isoformat)
  then have "rehydrate_agent doc = Inr (agent_with_created_at t agent)"
    by (simp add: rehydrate_agent_def doc_def agent_with_created_at_twice)
  moreover have "agent_with_created_at t agent = agent"
    by (simp add: agent_with_created_at_def agent_def)
  ultimately have g: "get_agent (a_id agent) w' = (Inr agent, w')"
    using f by (simp add: get_agent_def)
  from c g show ?thesis
    by (intro exI [of _ agent] exI [of _ w']) (simp add: agent_def t_def)
qed

lemma demo_time_valid: "valid_datetime (demo_time n)"
  by (simp add: valid_datetime_def demo_time_def days_in_month_def)

theorem create_then_get_witness:
  "\<exists>agent w'. create_agent demo_env demo_create demo_world = (Inr agent, w') \<and>
     get_agent (a_id agent) w' = (Inr agent, w') \<and> a_id agent = ''id-i'' \<and>
     a_name agent = ''Test'' \<and> a_language agent = ''english'' \<and> a_is_active agent"
proof -
  have v: "valid_datetime (clock demo_env (now_calls demo_world))"
    by (simp add: demo_env_fields demo_time_valid)
  have f: "\<forall>d\<in>set (agents demo_world). a_id d \<noteq> uuid4_src demo_env (uuid_calls demo_world)"
    by (simp add: demo_env_fields demo_world_fields) (simp add: demo_agent_def)
  from create_then_get [OF v f, of demo_create] show ?thesis
    by (auto simp: demo_env_fields demo_world_fields demo_create_def)
qed















section \<open>Startup\<close>





section \<open>Roles of the messages written\<close>

lemma handle_conversations:
  "\<exists>ms. conversations (handle e r w) = conversations w @ ms \<and> (\<forall>m\<in>set ms. role_ok m)"
proof (cases r)
  case (PostAgent b)
  then show ?thesis by (simp add: create_agent_result Let_def)
next
  case GetAgents
  then show ?thesis by (simp add: get_agents_def split: sum.splits)
next
  case (GetAgent i)
  then show ?thesis by (simp add: get_agent_def split: option.splits sum.splits)
next
  case (PutAgent i b)
  then show ?thesis by (simp add: update_agent_def Let_def split: option.splits sum.splits)
next
  case (DeleteAgent i)
  then show ?thesis by (simp add: delete_agent_def split: prod.splits)
next
  case (PostLLMConfig b)
  then show ?thesis
    by (simp add: create_llm_config_def new_LLMConfig_def uuid4_def now_utc_def Let_def)
next
  case GetLLMConfigs
  then show ?thesis by (simp add: get_llm_configs_def split: sum.splits)
next
  case (DeleteLLMConfig i)
  then show ?thesis by (simp add: delete_llm_config_def split: prod.splits)
next
  case (PostChat b)
  show ?thesis
  proof (cases "find_one (\<lambda>d. a_id d = rq_agent_id b) (agents w)")
    case None
    with PostChat show ?thesis by (simp add: chat_with_agent_def)
  next
    case (Some agent)
    obtain sid w1 where r: "resolve_session_id e (rq_session_id b) w = (sid, w1)"
      by (cases "resolve_session_id e (rq_session_id b) w")
    note st = resolve_session_id_store [OF r]
    from chat_with_agent_found [OF Some r] st PostChat show ?thesis
      by (simp add: role_ok_def split: sum.splits)
  qed
next
  case Startup
  then show ?thesis
    by (simp add: startup_event_def new_Agent_def uuid4_def now_utc_def Let_def
        split: option.splits)
qed

lemma run_conversations:
  "\<exists>ms. conversations (run e rs w) = conversations w @ ms \<and> (\<forall>m\<in>set ms. role_ok m)"
proof (induction rs arbitrary: w)
  case Nil
  show ?case by simp
next
  case (Cons r rs)
  from handle_conversations [of e r w] obtain ms
    where 1: "conversations (handle e r w) = conversations w @ ms" "\<forall>m\<in>set ms. role_ok m"
    by blast
  from Cons [of "handle e r w"] obtain ms'
    where 2: "conversations (run e rs (handle e r w)) = conversations (handle e r w) @ ms'"
      "\<forall>m\<in>set ms'. role_ok m"
    by blast
  from 1 2 show ?case by (intro exI [of _ "ms @ ms'"]) auto
qed

text \<open>
  Claim C10. Whatever requests are handled, in whatever order and from whatever state, the
  conversations collection only grows at its end, and every document added has the role
  \<^verbatim>\<open>user\<close> or \<^verbatim>\<open>assistant\<close>.
\<close>

theorem written_roles:
  "take (length (conversations w)) (conversations (run e rs w)) = conversations w \<and>
   (\<forall>m\<in>set (drop (length (conversations w)) (conversations (run e rs w))).
      m_role m = ''user'' \<or> m_role m = ''assistant'')"
proof -
  from run_conversations [of e rs w] obtain ms
    where "conversations (run e rs w) = conversations w @ ms" "\<forall>m\<in>set ms. role_ok m"
    by blast
  then show ?thesis by (simp add: role_ok_def)
qed

theorem written_roles_witness:
  "map m_role (conversations (run demo_env [GetAgents, PostChat (demo_chat ''hello'' None)] demo_world))
     = [''user'', ''assistant'']"
proof -
  have g: "handle demo_env GetAgents demo_world = demo_world"
    by (simp add: get_agents_def split: sum.splits)
  have r: "resolve_session_id demo_env None demo_world = (''id-i'', demo_world\<lparr>uuid_calls := 2\<rparr>)"
    by (simp add: resolve_demo_minted)
  have "length (conversations (run demo_env [GetAgents, PostChat (demo_chat ''hello'' None)] demo_world)) = 2"
    by (simp add: g demo_chat_result [OF r] del: handle.simps(2))
  then obtain u a
    where c: "conversations (run demo_env [GetAgents, PostChat (demo_chat ''hello'' None)] demo_world) = [u, a]"
    by (auto simp: length_Suc_conv numeral_2_eq_2)
  have "m_role u = ''user''" "m_role a = ''assistant''"
    using c by (auto simp: g demo_chat_result [OF r] simp del: handle.simps(2))
  with c written_roles [of demo_world demo_env "[GetAgents, PostChat (demo_chat ''hello'' None)]"]
  show ?thesis by (simp add: demo_world_fields)
qed

end
